theory Spec2Isabelle
  imports Complex_Main
begin

section \<open>The unpooling layer of video-caffe\<close>

text \<open>
  A shallow embedding of \<^verbatim>\<open>src/caffe/layers/unpooling_layer.cpp\<close> and of the
  declarations of \<^verbatim>\<open>include/caffe/layers/cudnn_unpooling_layer.hpp\<close>.

  Conventions.
  \<^item> The C++ \<^verbatim>\<open>int\<close> members of the layer and the axis sizes of a blob have the
    type \<^typ>\<open>int\<close>. \<^verbatim>\<open>int\<close> has 32 bits: the arithmetic of \<^verbatim>\<open>Reshape\<close>, which
    computes the output size from the configuration, wraps around in two's complement,
    each operation on its own (\<open>int_add\<close>, \<open>int_sub\<close>, \<open>int_mul\<close>). The index
    arithmetic of the two kernels is checked against the buffers at every access.
    A member \<^verbatim>\<open>kernel_h_\<close> of the class is the field \<open>kernel_h_m\<close> here.
  \<^item> \<^verbatim>\<open>Dtype\<close> (float or double) values are only stored, copied and converted
    to \<^verbatim>\<open>int\<close>; no floating-point arithmetic is done on them. They are reals.
  \<^item> A failed \<^verbatim>\<open>CHECK\<close> aborts the process: it is the \<open>Inl\<close> of a sum.
  \<^item> A raw pointer is a buffer (a list) and an offset into it; an access outside the
    buffer is undefined behaviour in C++ and is \<open>None\<close> here.
\<close>

subsection \<open>Configuration and layer state\<close>

text \<open>
  The accessors of \<^verbatim>\<open>UnpoolingParameter\<close> used by the layer: for each optional
  field its presence flag \<^verbatim>\<open>has_x()\<close> and the value \<^verbatim>\<open>x()\<close> that the accessor
  returns (the declared default when the field is absent).
\<close>

record UnpoolingParameter =
  has_kernel_size :: bool
  kernel_size :: int
  has_kernel_h :: bool
  kernel_h :: int
  has_kernel_w :: bool
  kernel_w :: int
  has_pad :: bool
  pad :: int
  has_pad_h :: bool
  pad_h :: int
  has_pad_w :: bool
  pad_w :: int
  has_stride :: bool
  stride :: int
  has_stride_h :: bool
  stride_h :: int
  has_stride_w :: bool
  stride_w :: int

record layer =
  kernel_h_m :: int
  kernel_w_m :: int
  stride_h_m :: int
  stride_w_m :: int
  pad_h_m :: int
  pad_w_m :: int
  channels_m :: int
  height_m :: int
  width_m :: int
  unpooled_height_m :: int
  unpooled_width_m :: int

text \<open>The failed \<^verbatim>\<open>CHECK\<close>s of \<^verbatim>\<open>LayerSetUp\<close>, in the order of the source.\<close>

datatype error =
    FilterSizeNotBoth
  | FilterBothRequired
  | PadMixed
  | StrideMixed
  | FilterDimZero
  | PadNotLessThanKernel

subsection \<open>LayerSetUp\<close>

text \<open>Lines 34 to 39: the kernel from the scalar field when present, else per axis.\<close>

definition resolve_kernel :: "UnpoolingParameter \<Rightarrow> int \<times> int" where
  "resolve_kernel p =
     (if has_kernel_size p then (kernel_size p, kernel_size p)
      else (kernel_h p, kernel_w p))"

text \<open>Lines 43 to 48.\<close>

definition resolve_pad :: "UnpoolingParameter \<Rightarrow> int \<times> int" where
  "resolve_pad p =
     (if \<not> has_pad_h p then (pad p, pad p) else (pad_h p, pad_w p))"

text \<open>Lines 51 to 56.\<close>

definition resolve_stride :: "UnpoolingParameter \<Rightarrow> int \<times> int" where
  "resolve_stride p =
     (if \<not> has_stride_h p then (stride p, stride p) else (stride_h p, stride_w p))"

definition LayerSetUp :: "layer \<Rightarrow> UnpoolingParameter \<Rightarrow> error + layer" where
  "LayerSetUp l p =
     (if \<not> ((\<not> has_kernel_size p) \<noteq> (\<not> (has_kernel_h p \<and> has_kernel_w p)))
        then Inl FilterSizeNotBoth
      else if \<not> (has_kernel_size p \<or> (has_kernel_h p \<and> has_kernel_w p))
        then Inl FilterBothRequired
      else if \<not> ((\<not> has_pad p \<and> has_pad_h p \<and> has_pad_w p)
                  \<or> (\<not> has_pad_h p \<and> \<not> has_pad_w p))
        then Inl PadMixed
      else if \<not> ((\<not> has_stride p \<and> has_stride_h p \<and> has_stride_w p)
                  \<or> (\<not> has_stride_h p \<and> \<not> has_stride_w p))
        then Inl StrideMixed
      else
        let (kh, kw) = resolve_kernel p in
        if \<not> kh > 0 then Inl FilterDimZero
        else if \<not> kw > 0 then Inl FilterDimZero
        else
          let (ph, pw) = resolve_pad p;
              (sh, sw) = resolve_stride p
          in if (ph \<noteq> 0 \<or> pw \<noteq> 0) \<and> \<not> ph < kh then Inl PadNotLessThanKernel
             else if (ph \<noteq> 0 \<or> pw \<noteq> 0) \<and> \<not> pw < kw then Inl PadNotLessThanKernel
             else Inr (l\<lparr>kernel_h_m := kh, kernel_w_m := kw,
                         stride_h_m := sh, stride_w_m := sw,
                         pad_h_m := ph, pad_w_m := pw\<rparr>))"

subsection \<open>Blobs\<close>

type_synonym Dtype = real

text \<open>
  A 4-axis blob: its axis sizes and its two buffers. The lists are the allocated
  storage, of which the first \<open>count\<close> elements are the tensor.
\<close>

record blob =
  num :: int
  channels :: int
  height :: int
  width :: int
  data :: "Dtype list"
  diff :: "Dtype list"

definition count :: "blob \<Rightarrow> int" where
  "count b = num b * channels b * height b * width b"

text \<open>
  Modelled from the spec: \<^verbatim>\<open>Blob::offset\<close> (blob.hpp is not among the sources), the
  position of element \<open>(n, c, h, w)\<close> in the contiguous row-major buffer.
\<close>

definition offset :: "blob \<Rightarrow> int \<Rightarrow> int \<Rightarrow> int \<Rightarrow> int \<Rightarrow> int" where
  "offset b n c h w = ((n * channels b + c) * height b + h) * width b + w"

text \<open>
  Modelled from the spec: \<^verbatim>\<open>Blob::Reshape\<close> (blob.cpp is not among the sources), the
  tensor interface's reshape, which sets the axis sizes and (re)allocates backing
  storage: storage that is large enough is kept, larger storage is allocated anew.
\<close>

definition Blob_Reshape :: "blob \<Rightarrow> int \<Rightarrow> int \<Rightarrow> int \<Rightarrow> int \<Rightarrow> blob" where
  "Blob_Reshape b n c h w =
     (let cnt = n * c * h * w;
          b' = b\<lparr>num := n, channels := c, height := h, width := w\<rparr>
      in if cnt > int (length (data b))
         then b'\<lparr>data := replicate (nat cnt) 0, diff := replicate (nat cnt) 0\<rparr>
         else b')"

text \<open>\<^verbatim>\<open>v[k]\<close> on a \<^verbatim>\<open>std::vector\<close>: undefined outside the vector.\<close>

definition vec_at :: "'a list \<Rightarrow> nat \<Rightarrow> 'a option" where
  "vec_at v k = (if k < length v then Some (v ! k) else None)"

subsection \<open>Reshape\<close>

text \<open>
  The value of a 32-bit \<^verbatim>\<open>int\<close> after an operation whose exact result is \<open>x\<close>: the
  representative of \<open>x\<close> modulo \<open>2^32\<close> between \<open>-2^31\<close> and \<open>2^31 - 1\<close>.
\<close>

definition int32 :: "int \<Rightarrow> int" where
  "int32 x = (x + 2147483648) mod 4294967296 - 2147483648"

definition int_add :: "int \<Rightarrow> int \<Rightarrow> int" where
  "int_add a b = int32 (a + b)"

definition int_sub :: "int \<Rightarrow> int \<Rightarrow> int" where
  "int_sub a b = int32 (a - b)"

definition int_mul :: "int \<Rightarrow> int \<Rightarrow> int" where
  "int_mul a b = int32 (a * b)"

text \<open>
  Lines 72 and 73 compute \<^verbatim>\<open>(height_ - 1) * stride_h_ + kernel_h_ - 2 * pad_h_\<close> in
  \<^verbatim>\<open>int\<close>; the \<^verbatim>\<open>static_cast<int>\<close> of the \<^verbatim>\<open>int\<close> result changes nothing.
\<close>

definition Reshape :: "layer \<Rightarrow> blob list \<Rightarrow> blob list \<Rightarrow> (layer \<times> blob list) option" where
  "Reshape l bottom top' =
     (case vec_at bottom 0 of
        None \<Rightarrow> None
      | Some b0 \<Rightarrow>
         (let l1 = l\<lparr>channels_m := channels b0, height_m := height b0, width_m := width b0\<rparr>;
              l2 = l1\<lparr>unpooled_height_m :=
                         int_sub (int_add (int_mul (int_sub (height_m l1) 1) (stride_h_m l1))
                                          (kernel_h_m l1))
                                 (int_mul 2 (pad_h_m l1))\<rparr>;
              l3 = l2\<lparr>unpooled_width_m :=
                         int_sub (int_add (int_mul (int_sub (width_m l2) 1) (stride_w_m l2))
                                          (kernel_w_m l2))
                                 (int_mul 2 (pad_w_m l2))\<rparr>
          in (case vec_at top' 0 of
                None \<Rightarrow> None
              | Some t0 \<Rightarrow>
                 Some (l3, top'[0 := Blob_Reshape t0 (num b0) (channels_m l3)
                                       (unpooled_height_m l3) (unpooled_width_m l3)]))))"

subsection \<open>Buffers, pointers and loops\<close>

text \<open>\<^verbatim>\<open>p[i]\<close> read and written through a pointer at offset \<open>a - i\<close> of the buffer.\<close>

definition rd :: "Dtype list \<Rightarrow> int \<Rightarrow> Dtype option" where
  "rd buf a = (if 0 \<le> a \<and> a < int (length buf) then Some (buf ! nat a) else None)"

definition wr :: "Dtype list \<Rightarrow> int \<Rightarrow> Dtype \<Rightarrow> Dtype list option" where
  "wr buf a v = (if 0 \<le> a \<and> a < int (length buf) then Some (buf[nat a := v]) else None)"

text \<open>
  Modelled from the spec: \<^verbatim>\<open>caffe_set(N, alpha, Y)\<close> (math_functions.cpp is not among
  the sources), which initialises the first \<open>N\<close> elements of the buffer to \<open>alpha\<close>.
\<close>

definition caffe_set :: "int \<Rightarrow> Dtype \<Rightarrow> Dtype list \<Rightarrow> Dtype list option" where
  "caffe_set n alpha y =
     (if 0 \<le> n \<and> n \<le> int (length y)
      then Some (replicate (nat n) alpha @ drop (nat n) y) else None)"

text \<open>The conversion \<^verbatim>\<open>const int mask_index = bottom_mask[index]\<close>: truncation.\<close>

definition Dtype_to_int :: "Dtype \<Rightarrow> int" where
  "Dtype_to_int x = (if 0 \<le> x then \<lfloor>x\<rfloor> else \<lceil>x\<rceil>)"

text \<open>\<^verbatim>\<open>for (int i = 0; i < n; ++i) body\<close>, stopping at undefined behaviour.\<close>

fun for_loop :: "nat list \<Rightarrow> (nat \<Rightarrow> 's \<Rightarrow> 's option) \<Rightarrow> 's \<Rightarrow> 's option" where
  "for_loop [] body s = Some s"
| "for_loop (i # is) body s =
     (case body i s of None \<Rightarrow> None | Some s' \<Rightarrow> for_loop is body s')"

definition for_lt :: "int \<Rightarrow> (nat \<Rightarrow> 's \<Rightarrow> 's option) \<Rightarrow> 's \<Rightarrow> 's option" where
  "for_lt n body s = for_loop [0..<nat n] body s"

subsection \<open>Forward_cpu\<close>

text \<open>
  The buffer of \<^verbatim>\<open>top[0]\<close> being written and the three moving pointers, as offsets
  into the data of \<^verbatim>\<open>bottom[0]\<close>, of \<^verbatim>\<open>top[0]\<close> and of \<^verbatim>\<open>bottom[1]\<close>.
  The blobs are distinct objects: the output does not alias an input.
\<close>

record fwd_state =
  top_buf :: "Dtype list"
  bottom_data :: int
  top_data :: int
  bottom_mask :: int

text \<open>Lines 98 to 100.\<close>

definition forward_body ::
  "layer \<Rightarrow> Dtype list \<Rightarrow> Dtype list \<Rightarrow> nat \<Rightarrow> nat \<Rightarrow> fwd_state \<Rightarrow> fwd_state option" where
  "forward_body l bd bm ph pw s =
     (let index = int ph * width_m l + int pw in
      (case rd bm (bottom_mask s + index) of
         None \<Rightarrow> None
       | Some m \<Rightarrow>
          (let mask_index = Dtype_to_int m in
           (case rd bd (bottom_data s + index) of
              None \<Rightarrow> None
            | Some v \<Rightarrow>
               (case wr (top_buf s) (top_data s + mask_index) v of
                  None \<Rightarrow> None
                | Some t \<Rightarrow> Some (s\<lparr>top_buf := t\<rparr>))))))"

text \<open>Lines 96 to 106: the body of the loop over \<open>c\<close>.\<close>

definition forward_slice :: "layer \<Rightarrow> blob \<Rightarrow> blob \<Rightarrow> blob \<Rightarrow> fwd_state \<Rightarrow> fwd_state option" where
  "forward_slice l b0 b1 t0 s =
     (case for_lt (height_m l) (\<lambda>ph.
             for_lt (width_m l) (\<lambda>pw. forward_body l (data b0) (data b1) ph pw)) s of
        None \<Rightarrow> None
      | Some s' \<Rightarrow>
          Some (s'\<lparr>bottom_data := bottom_data s' + offset b0 0 1 0 0,
                    top_data := top_data s' + offset t0 0 1 0 0,
                    bottom_mask := bottom_mask s' + offset b1 0 1 0 0\<rparr>))"

definition Forward_cpu :: "layer \<Rightarrow> blob list \<Rightarrow> blob list \<Rightarrow> blob list option" where
  "Forward_cpu l bottom top' =
     (case vec_at bottom 0 of
        None \<Rightarrow> None
      | Some b0 \<Rightarrow>
     (case vec_at top' 0 of
        None \<Rightarrow> None
      | Some t0 \<Rightarrow>
     (case caffe_set (count t0) 0 (data t0) of
        None \<Rightarrow> None
      | Some z \<Rightarrow>
     (case vec_at bottom 1 of
        None \<Rightarrow> None
      | Some b1 \<Rightarrow>
     (case for_lt (num b0) (\<lambda>n.
             for_lt (channels_m l) (\<lambda>c. forward_slice l b0 b1 t0))
             \<lparr>top_buf = z, bottom_data = 0, top_data = 0, bottom_mask = 0\<rparr> of
        None \<Rightarrow> None
      | Some s \<Rightarrow> Some (top'[0 := t0\<lparr>data := top_buf s\<rparr>]))))))"

subsection \<open>Backward_cpu\<close>

text \<open>
  The diff buffer of \<^verbatim>\<open>bottom[0]\<close> being written and the three moving pointers, as
  offsets into the diff of \<^verbatim>\<open>bottom[0]\<close>, the diff of \<^verbatim>\<open>top[0]\<close> and the data
  of \<^verbatim>\<open>bottom[1]\<close>.
\<close>

record bwd_state =
  bottom_buf :: "Dtype list"
  bottom_diff :: int
  top_diff :: int
  bottom_mask_b :: int

text \<open>Lines 129 to 131.\<close>

definition backward_body ::
  "layer \<Rightarrow> Dtype list \<Rightarrow> Dtype list \<Rightarrow> nat \<Rightarrow> nat \<Rightarrow> bwd_state \<Rightarrow> bwd_state option" where
  "backward_body l td bm ph pw s =
     (let index = int ph * width_m l + int pw in
      (case rd bm (bottom_mask_b s + index) of
         None \<Rightarrow> None
       | Some m \<Rightarrow>
          (let mask_index = Dtype_to_int m in
           (case rd td (top_diff s + mask_index) of
              None \<Rightarrow> None
            | Some v \<Rightarrow>
               (case wr (bottom_buf s) (bottom_diff s + index) v of
                  None \<Rightarrow> None
                | Some b \<Rightarrow> Some (s\<lparr>bottom_buf := b\<rparr>))))))"

text \<open>
  Lines 126 to 138: the body of the loop over \<open>n\<close>. The brace at line 134 closes the
  loop over \<open>c\<close>, so the three pointers advance once for each \<open>n\<close>, after the whole
  loop over \<open>c\<close>, and not once for each channel as in \<^verbatim>\<open>Forward_cpu\<close>.
\<close>

definition backward_num :: "layer \<Rightarrow> blob \<Rightarrow> blob \<Rightarrow> blob \<Rightarrow> bwd_state \<Rightarrow> bwd_state option" where
  "backward_num l t0 b0 b1 s =
     (case for_lt (channels_m l) (\<lambda>c.
             for_lt (height_m l) (\<lambda>ph.
               for_lt (width_m l) (\<lambda>pw. backward_body l (diff t0) (data b1) ph pw))) s of
        None \<Rightarrow> None
      | Some s' \<Rightarrow>
          Some (s'\<lparr>bottom_diff := bottom_diff s' + offset b0 0 1 0 0,
                    top_diff := top_diff s' + offset t0 0 1 0 0,
                    bottom_mask_b := bottom_mask_b s' + offset b1 0 1 0 0\<rparr>))"

definition Backward_cpu ::
  "layer \<Rightarrow> blob list \<Rightarrow> bool list \<Rightarrow> blob list \<Rightarrow> blob list option" where
  "Backward_cpu l top' propagate_down bottom =
     (case vec_at propagate_down 0 of
        None \<Rightarrow> None
      | Some pd \<Rightarrow>
     if \<not> pd then Some bottom
     else
     (case vec_at top' 0 of
        None \<Rightarrow> None
      | Some t0 \<Rightarrow>
     (case vec_at bottom 0 of
        None \<Rightarrow> None
      | Some b0 \<Rightarrow>
     (case caffe_set (count b0) 0 (diff b0) of
        None \<Rightarrow> None
      | Some z \<Rightarrow>
     (case vec_at bottom 1 of
        None \<Rightarrow> None
      | Some b1 \<Rightarrow>
     (case for_lt (num t0) (\<lambda>n. backward_num l t0 b0 b1)
             \<lparr>bottom_buf = z, bottom_diff = 0, top_diff = 0, bottom_mask_b = 0\<rparr> of
        None \<Rightarrow> None
      | Some s \<Rightarrow> Some (bottom[0 := b0\<lparr>diff := bottom_buf s\<rparr>])))))))"

subsection \<open>The declarations of the cuDNN header\<close>

datatype cudnn_variant = CuDNNUnpoolingLayer | CudnnNdUnpoolingLayer

fun ExactNumBottomBlobs :: "cudnn_variant \<Rightarrow> int" where
  "ExactNumBottomBlobs CuDNNUnpoolingLayer = 1"
| "ExactNumBottomBlobs CudnnNdUnpoolingLayer = 1"

fun ExactNumTopBlobs :: "cudnn_variant \<Rightarrow> int" where
  "ExactNumTopBlobs CuDNNUnpoolingLayer = 2"
| "ExactNumTopBlobs CudnnNdUnpoolingLayer = 1"

subsection \<open>Concrete configurations and tensors\<close>

text \<open>A layer before set-up, a configuration with no field present, an empty blob.\<close>

definition layer0 :: layer where
  "layer0 = \<lparr>kernel_h_m = 0, kernel_w_m = 0, stride_h_m = 0, stride_w_m = 0,
     pad_h_m = 0, pad_w_m = 0, channels_m = 0, height_m = 0, width_m = 0,
     unpooled_height_m = 0, unpooled_width_m = 0\<rparr>"

definition param0 :: UnpoolingParameter where
  "param0 = \<lparr>has_kernel_size = False, kernel_size = 0, has_kernel_h = False, kernel_h = 0,
     has_kernel_w = False, kernel_w = 0, has_pad = False, pad = 0, has_pad_h = False,
     pad_h = 0, has_pad_w = False, pad_w = 0, has_stride = False, stride = 1,
     has_stride_h = False, stride_h = 0, has_stride_w = False, stride_w = 0\<rparr>"

definition blob0 :: blob where
  "blob0 = \<lparr>num = 0, channels = 0, height = 0, width = 0, data = [], diff = []\<rparr>"

text \<open>
  Kernel 2, stride 2, no padding, on an input of one image with two channels of one
  pixel each: every channel unpools to a 2 by 2 map.
\<close>

definition param_k2s2 :: UnpoolingParameter where
  "param_k2s2 = param0\<lparr>has_kernel_size := True, kernel_size := 2,
     has_stride := True, stride := 2\<rparr>"

definition layer_k2s2 :: layer where
  "layer_k2s2 = \<lparr>kernel_h_m = 2, kernel_w_m = 2, stride_h_m = 2, stride_w_m = 2,
     pad_h_m = 0, pad_w_m = 0, channels_m = 2, height_m = 1, width_m = 1,
     unpooled_height_m = 2, unpooled_width_m = 2\<rparr>"

definition input2 :: blob where
  "input2 = \<lparr>num = 1, channels = 2, height = 1, width = 1, data = [3, 4], diff = [9, 9]\<rparr>"

definition mask2 :: blob where
  "mask2 = \<lparr>num = 1, channels = 2, height = 1, width = 1, data = [1, 2], diff = [0, 0]\<rparr>"

definition output2 :: blob where
  "output2 = \<lparr>num = 1, channels = 2, height = 2, width = 2,
     data = [0, 0, 0, 0, 0, 0, 0, 0], diff = [0, 0, 0, 0, 0, 0, 0, 0]\<rparr>"

text \<open>
  Kernel 1, stride 1, no padding, on an input of one image with one channel of one row
  of two pixels; both mask entries name output position 0.
\<close>

definition layer_k1s1 :: layer where
  "layer_k1s1 = \<lparr>kernel_h_m = 1, kernel_w_m = 1, stride_h_m = 1, stride_w_m = 1,
     pad_h_m = 0, pad_w_m = 0, channels_m = 1, height_m = 1, width_m = 2,
     unpooled_height_m = 1, unpooled_width_m = 2\<rparr>"

definition input_row :: blob where
  "input_row = \<lparr>num = 1, channels = 1, height = 1, width = 2, data = [3, 4], diff = [0, 0]\<rparr>"

definition mask_row :: blob where
  "mask_row = \<lparr>num = 1, channels = 1, height = 1, width = 2, data = [0, 0], diff = [0, 0]\<rparr>"

definition output_row :: blob where
  "output_row = \<lparr>num = 1, channels = 1, height = 1, width = 2, data = [0, 0], diff = [0, 0]\<rparr>"

text \<open>
  Kernel 1, stride \<open>2^30\<close>, no padding, on an input of one image with one channel of five
  rows of one pixel.
\<close>

definition param_big_stride :: UnpoolingParameter where
  "param_big_stride = param0\<lparr>has_kernel_size := True, kernel_size := 1,
     has_stride := True, stride := 1073741824\<rparr>"

definition layer_big_stride :: layer where
  "layer_big_stride = layer0\<lparr>kernel_h_m := 1, kernel_w_m := 1,
     stride_h_m := 1073741824, stride_w_m := 1073741824\<rparr>"

definition input_col :: blob where
  "input_col = \<lparr>num = 1, channels = 1, height = 5, width = 1,
     data = [1, 2, 3, 4, 5], diff = [0, 0, 0, 0, 0]\<rparr>"

definition mask_col :: blob where
  "mask_col = \<lparr>num = 1, channels = 1, height = 5, width = 1,
     data = [0, 0, 0, 0, 0], diff = [0, 0, 0, 0, 0]\<rparr>"

section \<open>Properties\<close>

lemmas setup_defs = LayerSetUp_def resolve_kernel_def resolve_pad_def resolve_stride_def

subsection \<open>The arithmetic of reshape\<close>

text \<open>
  Wrapping every operation of the expression is wrapping its exact value once, and a
  value in the range of \<^verbatim>\<open>int\<close> is left as it is.
\<close>

lemma int32_mod: "int32 x mod 4294967296 = x mod 4294967296"
proof -
  have "int32 x = x + 2147483648 - 4294967296 * ((x + 2147483648) div 4294967296) - 2147483648"
    unfolding int32_def by (simp add: minus_mult_div_eq_mod)
  then have "int32 x = x + 4294967296 * (- ((x + 2147483648) div 4294967296))"
    by simp
  then show ?thesis
    by (simp only: mod_mult_self2)
qed

lemma int32_cong: "x mod 4294967296 = y mod 4294967296 \<Longrightarrow> int32 x = int32 y"
proof -
  assume "x mod 4294967296 = y mod 4294967296"
  then have "(x + 2147483648) mod 4294967296 = (y + 2147483648) mod 4294967296"
    by (rule mod_add_cong) simp
  then show ?thesis
    by (simp add: int32_def)
qed

lemma int32_in_range: "- 2147483648 \<le> x \<Longrightarrow> x < 2147483648 \<Longrightarrow> int32 x = x"
  by (simp add: int32_def)

lemma unpooled_wraps_once:
  "int_sub (int_add (int_mul (int_sub d 1) s) k) (int_mul 2 p) = int32 ((d - 1) * s + k - 2 * p)"
proof -
  have m: "int32 (int32 (d - 1) * s) mod 4294967296 = ((d - 1) * s) mod 4294967296"
  proof -
    have "(int32 (d - 1) * s) mod 4294967296 = ((d - 1) * s) mod 4294967296"
      by (rule mod_mult_cong) (simp_all only: int32_mod)
    then show ?thesis by (simp only: int32_mod)
  qed
  have a: "int32 (int32 (int32 (d - 1) * s) + k) mod 4294967296
             = ((d - 1) * s + k) mod 4294967296"
  proof -
    have "(int32 (int32 (d - 1) * s) + k) mod 4294967296 = ((d - 1) * s + k) mod 4294967296"
      using m by (rule mod_add_cong) (rule refl)
    then show ?thesis by (simp only: int32_mod)
  qed
  have "(int32 (int32 (int32 (d - 1) * s) + k) - int32 (2 * p)) mod 4294967296
          = ((d - 1) * s + k - 2 * p) mod 4294967296"
    using a int32_mod by (rule mod_diff_cong)
  then show ?thesis
    unfolding int_sub_def int_add_def int_mul_def by (rule int32_cong)
qed

lemma int32_big_stride: "int32 4294967297 = 1"
  by (simp add: int32_def)

subsection \<open>The examples\<close>

lemmas kernel_defs = Forward_cpu_def Backward_cpu_def forward_slice_def forward_body_def
  backward_num_def backward_body_def for_lt_def rd_def wr_def caffe_set_def Dtype_to_int_def
  count_def offset_def vec_at_def

text \<open>The example tensors are what set-up and reshape produce for the configuration.\<close>

lemma setup_k2s2:
  "LayerSetUp layer0 param_k2s2 =
     Inr (layer0\<lparr>kernel_h_m := 2, kernel_w_m := 2, stride_h_m := 2, stride_w_m := 2\<rparr>)"
  by (simp add: setup_defs param_k2s2_def param0_def layer0_def)

lemma reshape_k2s2:
  "Reshape (layer0\<lparr>kernel_h_m := 2, kernel_w_m := 2, stride_h_m := 2, stride_w_m := 2\<rparr>)
     [input2, mask2] [blob0] = Some (layer_k2s2, [output2])"
  by (simp add: Reshape_def Blob_Reshape_def vec_at_def layer0_def input2_def blob0_def
      layer_k2s2_def output2_def Let_def eval_nat_numeral unpooled_wraps_once int32_in_range)

lemma setup_k1s1:
  "LayerSetUp layer0 (param0\<lparr>has_kernel_size := True, kernel_size := 1\<rparr>) =
     Inr (layer0\<lparr>kernel_h_m := 1, kernel_w_m := 1, stride_h_m := 1, stride_w_m := 1\<rparr>)"
  by (simp add: setup_defs param0_def layer0_def)

lemma reshape_k1s1:
  "Reshape (layer0\<lparr>kernel_h_m := 1, kernel_w_m := 1, stride_h_m := 1, stride_w_m := 1\<rparr>)
     [input_row, mask_row] [blob0] = Some (layer_k1s1, [output_row])"
  by (simp add: Reshape_def Blob_Reshape_def vec_at_def layer0_def input_row_def blob0_def
      layer_k1s1_def output_row_def Let_def eval_nat_numeral unpooled_wraps_once int32_in_range)

lemma setup_big_stride: "LayerSetUp layer0 param_big_stride = Inr layer_big_stride"
  by (simp add: setup_defs param_big_stride_def layer_big_stride_def param0_def layer0_def)

subsection \<open>Set-up\<close>

text \<open>
  C7. Set-up rejects every configuration in which \<open>kernel_size\<close>, \<open>kernel_h\<close> and
  \<open>kernel_w\<close> are all present, and every configuration in which neither \<open>kernel_size\<close>
  nor both of \<open>kernel_h\<close> and \<open>kernel_w\<close> are present: the first \<^verbatim>\<open>CHECK\<close> fails.
\<close>

theorem LayerSetUp_kernel_exclusive:
  "(has_kernel_size p \<and> has_kernel_h p \<and> has_kernel_w p)
   \<or> (\<not> has_kernel_size p \<and> \<not> (has_kernel_h p \<and> has_kernel_w p))
   \<Longrightarrow> LayerSetUp l p = Inl FilterSizeNotBoth"
  by (auto simp: LayerSetUp_def)

theorem LayerSetUp_kernel_exclusive_witness:
  "LayerSetUp layer0 (param0\<lparr>has_kernel_size := True, kernel_size := 2, has_kernel_h := True,
      kernel_h := 2, has_kernel_w := True, kernel_w := 2\<rparr>) = Inl FilterSizeNotBoth
   \<and> LayerSetUp layer0 (param0\<lparr>has_kernel_h := True, kernel_h := 2\<rparr>) = Inl FilterSizeNotBoth"
  using LayerSetUp_kernel_exclusive [where l = layer0 and
      p = "param0\<lparr>has_kernel_size := True, kernel_size := 2,
        has_kernel_h := True, kernel_h := 2, has_kernel_w := True, kernel_w := 2\<rparr>"]
    LayerSetUp_kernel_exclusive [where l = layer0 and
      p = "param0\<lparr>has_kernel_h := True, kernel_h := 2\<rparr>"]
  by (simp add: param0_def)

text \<open>
  C8. In every accepted configuration the resolved kernel height and width are strictly
  positive and, if either resolved pad is nonzero, each pad is strictly less than the
  matching kernel dimension; every configuration whose resolved values violate this is
  rejected. The resolved values are those of \<open>resolve_kernel\<close> and \<open>resolve_pad\<close>.
\<close>

theorem LayerSetUp_kernel_pad_checked:
  "(LayerSetUp l p = Inr l' \<longrightarrow>
      kernel_h_m l' = fst (resolve_kernel p) \<and> kernel_w_m l' = snd (resolve_kernel p)
      \<and> pad_h_m l' = fst (resolve_pad p) \<and> pad_w_m l' = snd (resolve_pad p)
      \<and> 0 < kernel_h_m l' \<and> 0 < kernel_w_m l'
      \<and> (pad_h_m l' \<noteq> 0 \<or> pad_w_m l' \<noteq> 0 \<longrightarrow>
           pad_h_m l' < kernel_h_m l' \<and> pad_w_m l' < kernel_w_m l'))
   \<and> (\<not> (0 < fst (resolve_kernel p) \<and> 0 < snd (resolve_kernel p)
          \<and> (fst (resolve_pad p) \<noteq> 0 \<or> snd (resolve_pad p) \<noteq> 0 \<longrightarrow>
               fst (resolve_pad p) < fst (resolve_kernel p)
               \<and> snd (resolve_pad p) < snd (resolve_kernel p)))
       \<longrightarrow> (\<exists>e. LayerSetUp l p = Inl e))"
  by (auto simp: LayerSetUp_def split: prod.splits if_splits)

theorem LayerSetUp_kernel_pad_checked_witness:
  "LayerSetUp layer0 param_k2s2 =
     Inr (layer0\<lparr>kernel_h_m := 2, kernel_w_m := 2, stride_h_m := 2, stride_w_m := 2\<rparr>)
   \<and> 0 < kernel_h_m (layer0\<lparr>kernel_h_m := 2, kernel_w_m := 2, stride_h_m := 2, stride_w_m := 2\<rparr>)
   \<and> (\<exists>e. LayerSetUp layer0 (param0\<lparr>has_kernel_size := True, kernel_size := 0\<rparr>) = Inl e)
   \<and> (\<exists>e. LayerSetUp layer0
             (param0\<lparr>has_kernel_size := True, kernel_size := 2, has_pad := True, pad := 2\<rparr>)
           = Inl e)"
  using LayerSetUp_kernel_pad_checked [where l = layer0 and p = param_k2s2 and
      l' = "layer0\<lparr>kernel_h_m := 2, kernel_w_m := 2, stride_h_m := 2, stride_w_m := 2\<rparr>"]
    LayerSetUp_kernel_pad_checked [where l = layer0 and
      p = "param0\<lparr>has_kernel_size := True, kernel_size := 0\<rparr>"]
    LayerSetUp_kernel_pad_checked [where l = layer0 and
      p = "param0\<lparr>has_kernel_size := True, kernel_size := 2, has_pad := True, pad := 2\<rparr>"]
  by (simp add: setup_defs param_k2s2_def param0_def layer0_def)

text \<open>
  C5, as the claim states it, fails: set-up accepts a configuration whose stride is
  present and zero, and the resolved strides are then zero.
\<close>

theorem LayerSetUp_stride_zero_accepted:
  "LayerSetUp layer0 (param0\<lparr>has_kernel_size := True, kernel_size := 2,
       has_stride := True, stride := 0\<rparr>)
     = Inr (layer0\<lparr>kernel_h_m := 2, kernel_w_m := 2\<rparr>)
   \<and> \<not> 0 < stride_h_m (layer0\<lparr>kernel_h_m := 2, kernel_w_m := 2\<rparr>)
   \<and> \<not> 0 < stride_w_m (layer0\<lparr>kernel_h_m := 2, kernel_w_m := 2\<rparr>)"
  by (simp add: setup_defs param0_def layer0_def)

text \<open>
  C5, amended. In every accepted configuration the resolved stride height and width are
  the configured values, unchecked: both are the value of the scalar \<open>stride\<close> field when
  \<open>stride_h\<close> is absent, and the values of \<open>stride_h\<close> and \<open>stride_w\<close> otherwise. They
  are strictly positive exactly when those configured values are.
\<close>

theorem LayerSetUp_stride_resolved:
  "LayerSetUp l p = Inr l' \<Longrightarrow>
     stride_h_m l' = (if has_stride_h p then stride_h p else stride p)
     \<and> stride_w_m l' = (if has_stride_h p then stride_w p else stride p)"
  by (auto simp: setup_defs split: prod.splits if_splits)

theorem LayerSetUp_stride_resolved_witness:
  "LayerSetUp layer0 param_k2s2 =
     Inr (layer0\<lparr>kernel_h_m := 2, kernel_w_m := 2, stride_h_m := 2, stride_w_m := 2\<rparr>)
   \<and> stride_h_m (layer0\<lparr>kernel_h_m := 2, kernel_w_m := 2, stride_h_m := 2, stride_w_m := 2\<rparr>)
       = stride param_k2s2"
  using LayerSetUp_stride_resolved [where l = layer0 and p = param_k2s2 and
      l' = "layer0\<lparr>kernel_h_m := 2, kernel_w_m := 2, stride_h_m := 2, stride_w_m := 2\<rparr>"]
  by (simp add: setup_defs param_k2s2_def param0_def layer0_def)

text \<open>
  C10. A configuration in which \<open>kernel_size\<close> is present together with exactly one of
  \<open>kernel_h\<close> and \<open>kernel_w\<close> passes both kernel presence checks: it is accepted exactly
  when the pad and stride presence rules hold, \<open>kernel_size\<close> is positive and the pads
  are below it. Once accepted, both resolved kernel dimensions are \<open>kernel_size\<close>, and
  the lone per-axis field has no effect on the result.
\<close>

theorem LayerSetUp_kernel_size_with_one_axis:
  assumes "has_kernel_size p" and "has_kernel_h p \<noteq> has_kernel_w p"
  shows "(LayerSetUp l p = Inr l' \<longrightarrow>
            kernel_h_m l' = kernel_size p \<and> kernel_w_m l' = kernel_size p)
    \<and> ((\<exists>r. LayerSetUp l p = Inr r) \<longleftrightarrow>
         ((\<not> has_pad p \<and> has_pad_h p \<and> has_pad_w p) \<or> (\<not> has_pad_h p \<and> \<not> has_pad_w p))
         \<and> ((\<not> has_stride p \<and> has_stride_h p \<and> has_stride_w p)
              \<or> (\<not> has_stride_h p \<and> \<not> has_stride_w p))
         \<and> 0 < kernel_size p
         \<and> (fst (resolve_pad p) \<noteq> 0 \<or> snd (resolve_pad p) \<noteq> 0 \<longrightarrow>
              fst (resolve_pad p) < kernel_size p \<and> snd (resolve_pad p) < kernel_size p))
    \<and> LayerSetUp l p =
        LayerSetUp l (p\<lparr>has_kernel_h := False, kernel_h := a, has_kernel_w := False, kernel_w := b\<rparr>)"
proof (intro conjI)
  show "LayerSetUp l p = Inr l' \<longrightarrow>
          kernel_h_m l' = kernel_size p \<and> kernel_w_m l' = kernel_size p"
    using assms by (auto simp: LayerSetUp_def resolve_kernel_def split: prod.splits if_splits)
  show "(\<exists>r. LayerSetUp l p = Inr r) \<longleftrightarrow>
         ((\<not> has_pad p \<and> has_pad_h p \<and> has_pad_w p) \<or> (\<not> has_pad_h p \<and> \<not> has_pad_w p))
         \<and> ((\<not> has_stride p \<and> has_stride_h p \<and> has_stride_w p)
              \<or> (\<not> has_stride_h p \<and> \<not> has_stride_w p))
         \<and> 0 < kernel_size p
         \<and> (fst (resolve_pad p) \<noteq> 0 \<or> snd (resolve_pad p) \<noteq> 0 \<longrightarrow>
              fst (resolve_pad p) < kernel_size p \<and> snd (resolve_pad p) < kernel_size p)"
    using assms by (auto simp: LayerSetUp_def resolve_kernel_def split: prod.splits if_splits)
  show "LayerSetUp l p =
        LayerSetUp l (p\<lparr>has_kernel_h := False, kernel_h := a, has_kernel_w := False, kernel_w := b\<rparr>)"
    using assms by (simp add: setup_defs)
qed

theorem LayerSetUp_kernel_size_with_one_axis_witness:
  "LayerSetUp layer0 (param0\<lparr>has_kernel_size := True, kernel_size := 3,
       has_kernel_h := True, kernel_h := 7\<rparr>)
     = Inr (layer0\<lparr>kernel_h_m := 3, kernel_w_m := 3, stride_h_m := 1, stride_w_m := 1\<rparr>)
   \<and> kernel_h_m (layer0\<lparr>kernel_h_m := 3, kernel_w_m := 3, stride_h_m := 1, stride_w_m := 1\<rparr>) = 3
   \<and> kernel_w_m (layer0\<lparr>kernel_h_m := 3, kernel_w_m := 3, stride_h_m := 1, stride_w_m := 1\<rparr>) = 3"
  using LayerSetUp_kernel_size_with_one_axis [where l = layer0 and a = 0 and b = 0 and
      p = "param0\<lparr>has_kernel_size := True, kernel_size := 3, has_kernel_h := True, kernel_h := 7\<rparr>"
      and l' = "layer0\<lparr>kernel_h_m := 3, kernel_w_m := 3, stride_h_m := 1, stride_w_m := 1\<rparr>"]
  by (simp add: setup_defs param0_def layer0_def)

subsection \<open>Reshape\<close>

text \<open>
  C4, as the claim states it, fails: the output size is an \<^verbatim>\<open>int\<close>. For kernel 1,
  stride \<open>2^30\<close>, no padding and an input of height 5 the formula gives \<open>4294967297\<close>,
  and reshape sets the output height to 1.
\<close>

theorem Reshape_output_height_wraps:
  "Reshape layer_big_stride [input_col, mask_col] [blob0] =
     Some (layer_big_stride\<lparr>channels_m := 1, height_m := 5, width_m := 1,
             unpooled_height_m := 1, unpooled_width_m := 1\<rparr>,
           [\<lparr>num = 1, channels = 1, height = 1, width = 1, data = [0], diff = [0]\<rparr>])
   \<and> (height input_col - 1) * stride_h_m layer_big_stride + kernel_h_m layer_big_stride
       - 2 * pad_h_m layer_big_stride = 4294967297"
  by (simp add: Reshape_def Blob_Reshape_def vec_at_def layer_big_stride_def layer0_def
      input_col_def blob0_def Let_def unpooled_wraps_once int32_in_range int32_big_stride)

text \<open>
  C4, amended. For every resolved configuration and every input blob for which the
  value of \<open>(input_dim - 1) * stride + kernel - 2 * pad\<close> is in the range of a 32-bit
  \<^verbatim>\<open>int\<close>, for the height and for the width, reshape sets the output height and
  width to exactly that value, separately for each axis, and resizes the output blob to
  (input batch, input channels, output height, output width).
\<close>

theorem Reshape_output_shape:
  assumes "- 2147483648 \<le> (height b - 1) * stride_h_m l + kernel_h_m l - 2 * pad_h_m l"
    and "(height b - 1) * stride_h_m l + kernel_h_m l - 2 * pad_h_m l < 2147483648"
    and "- 2147483648 \<le> (width b - 1) * stride_w_m l + kernel_w_m l - 2 * pad_w_m l"
    and "(width b - 1) * stride_w_m l + kernel_w_m l - 2 * pad_w_m l < 2147483648"
  shows "Reshape l (b # bs) (t # ts) =
     Some (l\<lparr>channels_m := channels b, height_m := height b, width_m := width b,
              unpooled_height_m := (height b - 1) * stride_h_m l + kernel_h_m l - 2 * pad_h_m l,
              unpooled_width_m := (width b - 1) * stride_w_m l + kernel_w_m l - 2 * pad_w_m l\<rparr>,
           Blob_Reshape t (num b) (channels b)
             ((height b - 1) * stride_h_m l + kernel_h_m l - 2 * pad_h_m l)
             ((width b - 1) * stride_w_m l + kernel_w_m l - 2 * pad_w_m l) # ts)
   \<and> num (Blob_Reshape t n c h w) = n \<and> channels (Blob_Reshape t n c h w) = c
   \<and> height (Blob_Reshape t n c h w) = h \<and> width (Blob_Reshape t n c h w) = w"
proof -
  have h: "int32 ((height b - 1) * stride_h_m l + kernel_h_m l - 2 * pad_h_m l)
             = (height b - 1) * stride_h_m l + kernel_h_m l - 2 * pad_h_m l"
    using assms(1,2) by (rule int32_in_range)
  have w: "int32 ((width b - 1) * stride_w_m l + kernel_w_m l - 2 * pad_w_m l)
             = (width b - 1) * stride_w_m l + kernel_w_m l - 2 * pad_w_m l"
    using assms(3,4) by (rule int32_in_range)
  show ?thesis
    by (simp add: Reshape_def vec_at_def Blob_Reshape_def Let_def unpooled_wraps_once h w)
qed

theorem Reshape_output_shape_witness:
  "Reshape (layer0\<lparr>kernel_h_m := 2, kernel_w_m := 2, stride_h_m := 2, stride_w_m := 2\<rparr>)
     [input2, mask2] [blob0] = Some (layer_k2s2, [output2])
   \<and> unpooled_height_m layer_k2s2 = (height input2 - 1) * 2 + 2 - 2 * 0
   \<and> unpooled_width_m layer_k2s2 = (width input2 - 1) * 2 + 2 - 2 * 0
   \<and> (num output2, channels output2, height output2, width output2) = (1, 2, 2, 2)"
  using Reshape_output_shape [where b = input2 and bs = "[mask2]" and t = blob0 and ts = "[]"
      and n = 1 and c = 2 and h = 2 and w = 2 and
      l = "layer0\<lparr>kernel_h_m := 2, kernel_w_m := 2, stride_h_m := 2, stride_w_m := 2\<rparr>"]
  by (simp add: Blob_Reshape_def layer0_def input2_def blob0_def layer_k2s2_def output2_def
      Let_def eval_nat_numeral)

subsection \<open>Forward\<close>

text \<open>
  Loops: a loop over a concatenation runs one part after the other, and two nested
  counting loops whose body depends on \<open>ph * w + pw\<close> only are one loop over the
  row-major positions.
\<close>

lemma for_loop_append:
  "for_loop (xs @ ys) body s =
     (case for_loop xs body s of None \<Rightarrow> None | Some s' \<Rightarrow> for_loop ys body s')"
  by (induction xs arbitrary: s) (auto split: option.splits)

lemma for_loop_map: "for_loop (map h xs) body s = for_loop xs (\<lambda>i. body (h i)) s"
  by (induction xs arbitrary: s) (auto split: option.splits)

lemma upt_rows: "[0..<Suc h * w] = [0..<h * w] @ map (\<lambda>pw. h * w + pw) [0..<w]"
proof -
  have "[0..<h * w + w] = [0..<h * w] @ [h * w..<h * w + w]"
    by (rule upt_add_eq_append) simp
  moreover have "map (\<lambda>pw. h * w + pw) [0..<w] = [h * w..<h * w + w]"
    by (simp add: map_add_upt add.commute)
  ultimately show ?thesis by (simp add: add.commute)
qed

lemma for_loop_nested:
  "for_loop [0..<h] (\<lambda>ph. for_loop [0..<w] (\<lambda>pw. G (ph * w + pw))) s
     = for_loop [0..<h * w] G s"
proof (induction h)
  case 0
  show ?case by simp
next
  case (Suc h)
  show ?case
    unfolding upt_rows
    by (simp add: for_loop_append for_loop_map Suc split: option.splits)
qed

lemma forward_body_at:
  assumes "mp + i < length bm" "bp + i < length bd"
    and "0 \<le> Dtype_to_int (bm ! (mp + i))"
    and "tp + nat (Dtype_to_int (bm ! (mp + i))) < length buf"
  shows "forward_body l bd bm 0 i
           \<lparr>top_buf = buf, bottom_data = int bp, top_data = int tp, bottom_mask = int mp\<rparr>
         = Some \<lparr>top_buf = buf[tp + nat (Dtype_to_int (bm ! (mp + i))) := bd ! (bp + i)],
              bottom_data = int bp, top_data = int tp, bottom_mask = int mp\<rparr>"
proof -
  have a: "nat (int mp + int i) = mp + i" "nat (int bp + int i) = bp + i"
    by simp_all
  have b: "nat (int tp + Dtype_to_int (bm ! (mp + i))) = tp + nat (Dtype_to_int (bm ! (mp + i)))"
    using assms(3) by (simp add: nat_add_distrib)
  have c: "int tp + Dtype_to_int (bm ! (mp + i)) < int (length buf)"
    using assms(3,4) by linarith
  show ?thesis
    using assms a b c by (simp add: forward_body_def rd_def wr_def Let_def)
qed


lemma forward_flat_loop:
  assumes "bp + k \<le> length bd" "mp + k \<le> length bm" "tp + U \<le> length buf"
    and "\<forall>i<k. 0 \<le> Dtype_to_int (bm ! (mp + i)) \<and> Dtype_to_int (bm ! (mp + i)) < int U"
  shows "\<exists>buf'.
      for_loop [0..<k] (\<lambda>i. forward_body l bd bm 0 i)
        \<lparr>top_buf = buf, bottom_data = int bp, top_data = int tp, bottom_mask = int mp\<rparr>
      = Some \<lparr>top_buf = buf', bottom_data = int bp, top_data = int tp, bottom_mask = int mp\<rparr>
      \<and> length buf' = length buf
      \<and> (\<forall>a. a < tp \<or> tp + U \<le> a \<longrightarrow> buf' ! a = buf ! a)
      \<and> (\<forall>t<U. (\<forall>i<k. Dtype_to_int (bm ! (mp + i)) \<noteq> int t) \<longrightarrow> buf' ! (tp + t) = buf ! (tp + t))
      \<and> (\<forall>t<U. \<forall>i<k. Dtype_to_int (bm ! (mp + i)) = int t
              \<and> (\<forall>j<k. i < j \<longrightarrow> Dtype_to_int (bm ! (mp + j)) \<noteq> int t)
            \<longrightarrow> buf' ! (tp + t) = bd ! (bp + i))"
  using assms
proof (induction k)
  case 0
  show ?case by simp
next
  case (Suc k)
  let ?M = "\<lambda>i. Dtype_to_int (bm ! (mp + i))"
  let ?st = "\<lambda>b. \<lparr>top_buf = b, bottom_data = int bp, top_data = int tp, bottom_mask = int mp\<rparr>"
  from Suc.prems have pre: "bp + k \<le> length bd" "mp + k \<le> length bm" "tp + U \<le> length buf"
    "\<forall>i<k. 0 \<le> ?M i \<and> ?M i < int U"
    by auto
  from Suc.IH [OF pre] obtain buf' where
    run: "for_loop [0..<k] (\<lambda>i. forward_body l bd bm 0 i) (?st buf) = Some (?st buf')"
    and len: "length buf' = length buf"
    and out: "\<forall>a. a < tp \<or> tp + U \<le> a \<longrightarrow> buf' ! a = buf ! a"
    and none: "\<forall>t<U. (\<forall>i<k. ?M i \<noteq> int t) \<longrightarrow> buf' ! (tp + t) = buf ! (tp + t)"
    and last: "\<forall>t<U. \<forall>i<k. ?M i = int t \<and> (\<forall>j<k. i < j \<longrightarrow> ?M j \<noteq> int t)
                 \<longrightarrow> buf' ! (tp + t) = bd ! (bp + i)"
    by blast
  from Suc.prems have mk: "0 \<le> ?M k" "?M k < int U"
    by auto
  define w where "w = tp + nat (?M k)"
  have w_in: "tp \<le> w" "w < tp + U" "w < length buf'"
    using mk Suc.prems(3) len by (auto simp: w_def)
  have step: "forward_body l bd bm 0 k (?st buf') = Some (?st (buf'[w := bd ! (bp + k)]))"
    unfolding w_def
    using Suc.prems(1,2) mk(1) w_in(3) by (intro forward_body_at) (auto simp: w_def)
  have run': "for_loop [0..<Suc k] (\<lambda>i. forward_body l bd bm 0 i) (?st buf)
                = Some (?st (buf'[w := bd ! (bp + k)]))"
    by (simp add: for_loop_append run step)
  have wt: "w = tp + t \<longleftrightarrow> ?M k = int t" for t
    using mk(1) by (auto simp: w_def)
  have c1: "length (buf'[w := bd ! (bp + k)]) = length buf"
    by (simp add: len)
  have c2: "\<forall>a. a < tp \<or> tp + U \<le> a \<longrightarrow> buf'[w := bd ! (bp + k)] ! a = buf ! a"
    using out w_in by auto
  have c3: "\<forall>t<U. (\<forall>i<Suc k. ?M i \<noteq> int t)
              \<longrightarrow> buf'[w := bd ! (bp + k)] ! (tp + t) = buf ! (tp + t)"
  proof (intro allI impI)
    fix t assume t: "t < U" and no: "\<forall>i<Suc k. ?M i \<noteq> int t"
    from no have "w \<noteq> tp + t" by (simp add: wt)
    moreover from no have "\<forall>i<k. ?M i \<noteq> int t" by simp
    ultimately show "buf'[w := bd ! (bp + k)] ! (tp + t) = buf ! (tp + t)"
      using none t by simp
  qed
  have c4: "\<forall>t<U. \<forall>i<Suc k. ?M i = int t \<and> (\<forall>j<Suc k. i < j \<longrightarrow> ?M j \<noteq> int t)
              \<longrightarrow> buf'[w := bd ! (bp + k)] ! (tp + t) = bd ! (bp + i)"
  proof (intro allI impI)
    fix t i assume t: "t < U" and i: "i < Suc k"
      and hit: "?M i = int t \<and> (\<forall>j<Suc k. i < j \<longrightarrow> ?M j \<noteq> int t)"
    show "buf'[w := bd ! (bp + k)] ! (tp + t) = bd ! (bp + i)"
    proof (cases "i = k")
      case True
      with hit have "w = tp + t" by (simp add: wt)
      with w_in True show ?thesis by simp
    next
      case False
      with i have ik: "i < k" by simp
      with hit have "?M k \<noteq> int t" by simp
      then have "w \<noteq> tp + t" by (simp add: wt)
      moreover have "buf' ! (tp + t) = bd ! (bp + i)"
        using last t ik hit by simp
      ultimately show ?thesis by simp
    qed
  qed
  show ?case
    using run' c1 c2 c3 c4 by blast
qed


lemma forward_rows_flat:
  assumes "width_m l = int W"
  shows "for_loop [0..<H] (\<lambda>ph. for_loop [0..<W] (\<lambda>pw. forward_body l bd bm ph pw)) s
           = for_loop [0..<H * W] (\<lambda>i. forward_body l bd bm 0 i) s"
proof -
  have eq: "forward_body l bd bm 0 (ph * W + pw) = forward_body l bd bm ph pw" for ph pw
    by (rule ext) (simp add: forward_body_def assms)
  have "for_loop [0..<H * W] (\<lambda>i. forward_body l bd bm 0 i) s
          = for_loop [0..<H] (\<lambda>ph. for_loop [0..<W] (\<lambda>pw. forward_body l bd bm 0 (ph * W + pw))) s"
    by (rule for_loop_nested [symmetric])
  then show ?thesis
    by (simp only: eq)
qed

lemma forward_slice_effect:
  assumes dims: "height_m l = int H" "width_m l = int W"
    and offs: "offset b0 0 1 0 0 = int (H * W)" "offset t0 0 1 0 0 = int U"
      "offset b1 0 1 0 0 = int (H * W)"
    and bounds: "bp + H * W \<le> length (data b0)" "mp + H * W \<le> length (data b1)"
      "tp + U \<le> length buf"
    and rng: "\<forall>i<H * W. 0 \<le> Dtype_to_int (data b1 ! (mp + i))
                \<and> Dtype_to_int (data b1 ! (mp + i)) < int U"
  shows "\<exists>buf'.
      forward_slice l b0 b1 t0
        \<lparr>top_buf = buf, bottom_data = int bp, top_data = int tp, bottom_mask = int mp\<rparr>
      = Some \<lparr>top_buf = buf', bottom_data = int (bp + H * W), top_data = int (tp + U),
              bottom_mask = int (mp + H * W)\<rparr>
      \<and> length buf' = length buf
      \<and> (\<forall>a. a < tp \<or> tp + U \<le> a \<longrightarrow> buf' ! a = buf ! a)
      \<and> (\<forall>t<U. (\<forall>i<H * W. Dtype_to_int (data b1 ! (mp + i)) \<noteq> int t)
             \<longrightarrow> buf' ! (tp + t) = buf ! (tp + t))
      \<and> (\<forall>t<U. \<forall>i<H * W. Dtype_to_int (data b1 ! (mp + i)) = int t
              \<and> (\<forall>j<H * W. i < j \<longrightarrow> Dtype_to_int (data b1 ! (mp + j)) \<noteq> int t)
            \<longrightarrow> buf' ! (tp + t) = data b0 ! (bp + i))"
proof -
  from forward_flat_loop [OF bounds rng, of l] obtain buf' where
    run: "for_loop [0..<H * W] (\<lambda>i. forward_body l (data b0) (data b1) 0 i)
            \<lparr>top_buf = buf, bottom_data = int bp, top_data = int tp, bottom_mask = int mp\<rparr>
          = Some \<lparr>top_buf = buf', bottom_data = int bp, top_data = int tp, bottom_mask = int mp\<rparr>"
    and props: "length buf' = length buf"
      "\<forall>a. a < tp \<or> tp + U \<le> a \<longrightarrow> buf' ! a = buf ! a"
      "\<forall>t<U. (\<forall>i<H * W. Dtype_to_int (data b1 ! (mp + i)) \<noteq> int t)
             \<longrightarrow> buf' ! (tp + t) = buf ! (tp + t)"
      "\<forall>t<U. \<forall>i<H * W. Dtype_to_int (data b1 ! (mp + i)) = int t
              \<and> (\<forall>j<H * W. i < j \<longrightarrow> Dtype_to_int (data b1 ! (mp + j)) \<noteq> int t)
            \<longrightarrow> buf' ! (tp + t) = data b0 ! (bp + i)"
    by blast
  have "forward_slice l b0 b1 t0
          \<lparr>top_buf = buf, bottom_data = int bp, top_data = int tp, bottom_mask = int mp\<rparr>
        = Some \<lparr>top_buf = buf', bottom_data = int (bp + H * W), top_data = int (tp + U),
              bottom_mask = int (mp + H * W)\<rparr>"
    unfolding forward_slice_def for_lt_def dims nat_int forward_rows_flat [OF dims(2)] run offs
    by simp
  with props show ?thesis by blast
qed

lemma forward_slices_loop:
  assumes dims: "height_m l = int H" "width_m l = int W"
    and offs: "offset b0 0 1 0 0 = int (H * W)" "offset t0 0 1 0 0 = int U"
      "offset b1 0 1 0 0 = int (H * W)"
    and k: "k \<le> S"
    and bounds: "S * (H * W) \<le> length (data b0)" "S * (H * W) \<le> length (data b1)"
      "S * U \<le> length z"
    and rng: "\<forall>i<S * (H * W). 0 \<le> Dtype_to_int (data b1 ! i)
                \<and> Dtype_to_int (data b1 ! i) < int U"
  shows "\<exists>buf.
      for_loop [0..<k] (\<lambda>c. forward_slice l b0 b1 t0)
        \<lparr>top_buf = z, bottom_data = 0, top_data = 0, bottom_mask = 0\<rparr>
      = Some \<lparr>top_buf = buf, bottom_data = int (k * (H * W)), top_data = int (k * U),
              bottom_mask = int (k * (H * W))\<rparr>
      \<and> length buf = length z
      \<and> (\<forall>a. k * U \<le> a \<longrightarrow> buf ! a = z ! a)
      \<and> (\<forall>s<k. \<forall>t<U.
            ((\<forall>i<H * W. Dtype_to_int (data b1 ! (s * (H * W) + i)) \<noteq> int t)
               \<longrightarrow> buf ! (s * U + t) = z ! (s * U + t))
          \<and> (\<forall>i<H * W. Dtype_to_int (data b1 ! (s * (H * W) + i)) = int t
                \<and> (\<forall>j<H * W. i < j \<longrightarrow> Dtype_to_int (data b1 ! (s * (H * W) + j)) \<noteq> int t)
              \<longrightarrow> buf ! (s * U + t) = data b0 ! (s * (H * W) + i)))"
  using k
proof (induction k)
  case 0
  show ?case by simp
next
  case (Suc k)
  let ?A = "H * W"
  let ?M = "\<lambda>i. Dtype_to_int (data b1 ! i)"
  from Suc.prems have kS: "k \<le> S" and sk: "Suc k \<le> S" by simp_all
  from Suc.IH [OF kS] obtain buf where
    run: "for_loop [0..<k] (\<lambda>c. forward_slice l b0 b1 t0)
            \<lparr>top_buf = z, bottom_data = 0, top_data = 0, bottom_mask = 0\<rparr>
          = Some \<lparr>top_buf = buf, bottom_data = int (k * ?A), top_data = int (k * U),
                  bottom_mask = int (k * ?A)\<rparr>"
    and len: "length buf = length z"
    and rest: "\<forall>a. k * U \<le> a \<longrightarrow> buf ! a = z ! a"
    and prev: "\<forall>s<k. \<forall>t<U.
            ((\<forall>i<?A. ?M (s * ?A + i) \<noteq> int t) \<longrightarrow> buf ! (s * U + t) = z ! (s * U + t))
          \<and> (\<forall>i<?A. ?M (s * ?A + i) = int t \<and> (\<forall>j<?A. i < j \<longrightarrow> ?M (s * ?A + j) \<noteq> int t)
              \<longrightarrow> buf ! (s * U + t) = data b0 ! (s * ?A + i))"
    by blast
  have le_A: "k * ?A + ?A \<le> S * ?A"
    using mult_le_mono1 [OF sk, of ?A] by simp
  have le_U: "k * U + U \<le> S * U"
    using mult_le_mono1 [OF sk, of U] by simp
  have b1: "k * ?A + ?A \<le> length (data b0)" "k * ?A + ?A \<le> length (data b1)"
    "k * U + U \<le> length buf"
    using le_A le_U bounds len by simp_all
  have r1: "\<forall>i<?A. 0 \<le> ?M (k * ?A + i) \<and> ?M (k * ?A + i) < int U"
    using rng le_A by auto
  from forward_slice_effect [OF dims offs b1 r1] obtain buf' where
    step: "forward_slice l b0 b1 t0
             \<lparr>top_buf = buf, bottom_data = int (k * ?A), top_data = int (k * U),
               bottom_mask = int (k * ?A)\<rparr>
           = Some \<lparr>top_buf = buf', bottom_data = int (k * ?A + ?A), top_data = int (k * U + U),
                   bottom_mask = int (k * ?A + ?A)\<rparr>"
    and len': "length buf' = length buf"
    and out: "\<forall>a. a < k * U \<or> k * U + U \<le> a \<longrightarrow> buf' ! a = buf ! a"
    and none: "\<forall>t<U. (\<forall>i<?A. ?M (k * ?A + i) \<noteq> int t)
                 \<longrightarrow> buf' ! (k * U + t) = buf ! (k * U + t)"
    and last: "\<forall>t<U. \<forall>i<?A. ?M (k * ?A + i) = int t
                  \<and> (\<forall>j<?A. i < j \<longrightarrow> ?M (k * ?A + j) \<noteq> int t)
                \<longrightarrow> buf' ! (k * U + t) = data b0 ! (k * ?A + i)"
    by blast
  have run': "for_loop [0..<Suc k] (\<lambda>c. forward_slice l b0 b1 t0)
            \<lparr>top_buf = z, bottom_data = 0, top_data = 0, bottom_mask = 0\<rparr>
          = Some \<lparr>top_buf = buf', bottom_data = int (Suc k * ?A), top_data = int (Suc k * U),
                  bottom_mask = int (Suc k * ?A)\<rparr>"
    using run step by (simp add: for_loop_append add.commute)
  have c1: "length buf' = length z"
    using len len' by simp
  have c2: "\<forall>a. Suc k * U \<le> a \<longrightarrow> buf' ! a = z ! a"
    using out rest by simp
  have c3: "\<forall>s<Suc k. \<forall>t<U.
            ((\<forall>i<?A. ?M (s * ?A + i) \<noteq> int t) \<longrightarrow> buf' ! (s * U + t) = z ! (s * U + t))
          \<and> (\<forall>i<?A. ?M (s * ?A + i) = int t \<and> (\<forall>j<?A. i < j \<longrightarrow> ?M (s * ?A + j) \<noteq> int t)
              \<longrightarrow> buf' ! (s * U + t) = data b0 ! (s * ?A + i))"
  proof (intro allI impI)
    fix s t assume s: "s < Suc k" and t: "t < U"
    show "((\<forall>i<?A. ?M (s * ?A + i) \<noteq> int t) \<longrightarrow> buf' ! (s * U + t) = z ! (s * U + t))
          \<and> (\<forall>i<?A. ?M (s * ?A + i) = int t \<and> (\<forall>j<?A. i < j \<longrightarrow> ?M (s * ?A + j) \<noteq> int t)
              \<longrightarrow> buf' ! (s * U + t) = data b0 ! (s * ?A + i))"
    proof (cases "s = k")
      case True
      have "buf ! (k * U + t) = z ! (k * U + t)"
        using rest by simp
      with none last t True show ?thesis by simp
    next
      case False
      with s have sk': "s < k" by simp
      then have "Suc s \<le> k" by simp
      from mult_le_mono1 [OF this, of U] t have "s * U + t < k * U" by simp
      with out have "buf' ! (s * U + t) = buf ! (s * U + t)" by simp
      with prev sk' t show ?thesis by simp
    qed
  qed
  show ?case
    using run' c1 c2 c3 by blast
qed


lemma caffe_set_zero:
  assumes "n \<le> length y"
  shows "\<exists>z. caffe_set (int n) 0 y = Some z \<and> length z = length y \<and> (\<forall>a<n. z ! a = 0)"
  using assms by (simp add: caffe_set_def nth_append)

lemma Forward_cpu_core:
  assumes l: "channels_m l = int C" "height_m l = int H" "width_m l = int W"
    and b0: "num b0 = int N" "height b0 = int H" "width b0 = int W"
    and b1: "height b1 = int H" "width b1 = int W"
    and tb: "num tb = int N" "channels tb = int C" "height tb = int UH" "width tb = int UW"
    and top: "vec_at top' 0 = Some tb"
    and bounds: "N * C * (H * W) \<le> length (data b0)" "N * C * (H * W) \<le> length (data b1)"
      "N * C * (UH * UW) \<le> length (data tb)"
    and rng: "\<forall>i<N * C * (H * W). 0 \<le> Dtype_to_int (data b1 ! i)
                \<and> Dtype_to_int (data b1 ! i) < int (UH * UW)"
  shows "\<exists>out. Forward_cpu l [b0, b1] top' = Some (top'[0 := tb\<lparr>data := out\<rparr>])
      \<and> length out = length (data tb)
      \<and> (\<forall>s<N * C. \<forall>t<UH * UW.
            ((\<forall>i<H * W. Dtype_to_int (data b1 ! (s * (H * W) + i)) \<noteq> int t)
               \<longrightarrow> out ! (s * (UH * UW) + t) = 0)
          \<and> (\<forall>i<H * W. Dtype_to_int (data b1 ! (s * (H * W) + i)) = int t
                \<and> (\<forall>j<H * W. i < j \<longrightarrow> Dtype_to_int (data b1 ! (s * (H * W) + j)) \<noteq> int t)
              \<longrightarrow> out ! (s * (UH * UW) + t) = data b0 ! (s * (H * W) + i)))"
proof -
  let ?S = "N * C" and ?A = "H * W" and ?U = "UH * UW"
  let ?M = "\<lambda>i. Dtype_to_int (data b1 ! i)"
  have cnt: "count tb = int (?S * ?U)"
    by (simp add: count_def tb mult.assoc)
  from caffe_set_zero [OF bounds(3)] cnt obtain z where
    z: "caffe_set (count tb) 0 (data tb) = Some z" and zlen: "length z = length (data tb)"
    and zero: "\<forall>a<?S * ?U. z ! a = 0"
    by auto
  have offs: "offset b0 0 1 0 0 = int ?A" "offset tb 0 1 0 0 = int ?U" "offset b1 0 1 0 0 = int ?A"
    by (simp_all add: offset_def b0 b1 tb)
  have zb: "?S * ?U \<le> length z"
    using bounds(3) zlen by simp
  from forward_slices_loop [OF l(2,3) offs order_refl bounds(1,2) zb rng] obtain buf where
    run: "for_loop [0..<?S] (\<lambda>c. forward_slice l b0 b1 tb)
            \<lparr>top_buf = z, bottom_data = 0, top_data = 0, bottom_mask = 0\<rparr>
          = Some \<lparr>top_buf = buf, bottom_data = int (?S * ?A), top_data = int (?S * ?U),
                  bottom_mask = int (?S * ?A)\<rparr>"
    and len: "length buf = length z"
    and slices: "\<forall>s<?S. \<forall>t<?U.
            ((\<forall>i<?A. ?M (s * ?A + i) \<noteq> int t) \<longrightarrow> buf ! (s * ?U + t) = z ! (s * ?U + t))
          \<and> (\<forall>i<?A. ?M (s * ?A + i) = int t \<and> (\<forall>j<?A. i < j \<longrightarrow> ?M (s * ?A + j) \<noteq> int t)
              \<longrightarrow> buf ! (s * ?U + t) = data b0 ! (s * ?A + i))"
    by blast
  have loops: "for_lt (num b0) (\<lambda>n. for_lt (channels_m l) (\<lambda>c. forward_slice l b0 b1 tb)) st
                 = for_loop [0..<?S] (\<lambda>c. forward_slice l b0 b1 tb) st" for st
    unfolding for_lt_def b0 l nat_int
    by (rule for_loop_nested [where G = "\<lambda>c. forward_slice l b0 b1 tb"])
  have res: "Forward_cpu l [b0, b1] top' = Some (top'[0 := tb\<lparr>data := buf\<rparr>])"
    by (simp add: Forward_cpu_def vec_at_def [of "[b0, b1]"] top z loops run)
  have in_z: "s * ?U + t < ?S * ?U" if "s < ?S" "t < ?U" for s t
  proof -
    from that(1) have "Suc s \<le> ?S" by simp
    from mult_le_mono1 [OF this, of ?U] that(2) show ?thesis by simp
  qed
  have "\<forall>s<?S. \<forall>t<?U.
            ((\<forall>i<?A. ?M (s * ?A + i) \<noteq> int t) \<longrightarrow> buf ! (s * ?U + t) = 0)
          \<and> (\<forall>i<?A. ?M (s * ?A + i) = int t \<and> (\<forall>j<?A. i < j \<longrightarrow> ?M (s * ?A + j) \<noteq> int t)
              \<longrightarrow> buf ! (s * ?U + t) = data b0 ! (s * ?A + i))"
    using slices zero in_z by simp
  with res len zlen show ?thesis by auto
qed


lemma Reshape_state:
  assumes "Reshape l0 (b0 # bs) top0 = Some (l, top')"
  shows "channels_m l = channels b0" "height_m l = height b0" "width_m l = width b0"
    "vec_at top' 0 = Some (top' ! 0)"
    "num (top' ! 0) = num b0" "channels (top' ! 0) = channels b0"
    "height (top' ! 0) = unpooled_height_m l" "width (top' ! 0) = unpooled_width_m l"
    "count (top' ! 0) \<le> int (length (data (top' ! 0)))"
  using assms
  by (auto simp: Reshape_def vec_at_def Blob_Reshape_def Let_def count_def
      split: option.splits if_splits)

text \<open>
  C3. Let the layer and the output blob be as reshape leaves them for an input blob with
  non-negative axes whose storage holds its \<open>count\<close> elements, with non-negative output
  axes, and let the mask have the input's height and width, hold an entry for every
  input element, and have every such entry in the range of the per-slice output area
  \<open>U\<close>. Then the forward pass is defined and, for every (batch, channel) slice \<open>s\<close> and
  every position \<open>t\<close> of its output area, the output holds zero at \<open>t\<close> if no mask entry
  of the slice is \<open>t\<close>, and holds the input at \<open>i\<close> if \<open>i\<close> is the last position of the
  slice, in row-major order, whose mask entry is \<open>t\<close>.
\<close>

theorem Forward_cpu_last_write_wins:
  fixes b0 b1 :: blob and l :: layer
  defines "S \<equiv> nat (num b0 * channels b0)"
    and "A \<equiv> nat (height b0 * width b0)"
    and "U \<equiv> nat (unpooled_height_m l * unpooled_width_m l)"
  assumes reshape: "Reshape l0 [b0, b1] top0 = Some (l, top')"
    and shape: "0 \<le> num b0" "0 \<le> channels b0" "0 \<le> height b0" "0 \<le> width b0"
    and out_shape: "0 \<le> unpooled_height_m l" "0 \<le> unpooled_width_m l"
    and mask_shape: "height b1 = height b0" "width b1 = width b0"
    and storage: "count b0 \<le> int (length (data b0))" "count b0 \<le> int (length (data b1))"
    and in_range: "\<forall>k<nat (count b0). 0 \<le> Dtype_to_int (data b1 ! k)
        \<and> Dtype_to_int (data b1 ! k) < unpooled_height_m l * unpooled_width_m l"
  shows "\<exists>out. Forward_cpu l [b0, b1] top' = Some (top'[0 := (top' ! 0)\<lparr>data := out\<rparr>])
      \<and> (\<forall>s<S. \<forall>t<U.
            ((\<forall>i<A. Dtype_to_int (data b1 ! (s * A + i)) \<noteq> int t) \<longrightarrow> out ! (s * U + t) = 0)
          \<and> (\<forall>i<A. Dtype_to_int (data b1 ! (s * A + i)) = int t
                \<and> (\<forall>j<A. i < j \<longrightarrow> Dtype_to_int (data b1 ! (s * A + j)) \<noteq> int t)
              \<longrightarrow> out ! (s * U + t) = data b0 ! (s * A + i)))"
proof -
  define N C H W UH UW where "N = nat (num b0)" and "C = nat (channels b0)"
    and "H = nat (height b0)" and "W = nat (width b0)"
    and "UH = nat (unpooled_height_m l)" and "UW = nat (unpooled_width_m l)"
  note st = Reshape_state [OF reshape]
  have ints: "num b0 = int N" "channels b0 = int C" "height b0 = int H" "width b0 = int W"
    "unpooled_height_m l = int UH" "unpooled_width_m l = int UW"
    using shape out_shape by (simp_all add: N_def C_def H_def W_def UH_def UW_def)
  have S: "S = N * C" and A: "A = H * W" and U: "U = UH * UW"
    by (simp_all add: S_def A_def U_def ints nat_mult_distrib)
  have cb: "count b0 = int (N * C * (H * W))"
    by (simp add: count_def ints mult.assoc)
  have ct: "count (top' ! 0) = int (N * C * (UH * UW))"
    by (simp add: count_def st ints mult.assoc)
  have bounds: "N * C * (H * W) \<le> length (data b0)" "N * C * (H * W) \<le> length (data b1)"
    "N * C * (UH * UW) \<le> length (data (top' ! 0))"
    using storage st(9) unfolding cb ct by (simp_all only: of_nat_le_iff)
  have rng: "\<forall>i<N * C * (H * W). 0 \<le> Dtype_to_int (data b1 ! i)
                \<and> Dtype_to_int (data b1 ! i) < int (UH * UW)"
  proof -
    have "nat (count b0) = N * C * (H * W)"
      by (simp only: cb nat_int)
    with in_range show ?thesis
      by (simp add: ints)
  qed
  have l: "channels_m l = int C" "height_m l = int H" "width_m l = int W"
    using st(1-3) ints by simp_all
  have b1: "height b1 = int H" "width b1 = int W"
    using mask_shape ints by simp_all
  have tb: "num (top' ! 0) = int N" "channels (top' ! 0) = int C"
    "height (top' ! 0) = int UH" "width (top' ! 0) = int UW"
    using st(5-8) ints by simp_all
  from Forward_cpu_core [OF l ints(1,3,4) b1 tb st(4) bounds rng]
  show ?thesis
    unfolding S A U by blast
qed


theorem Forward_cpu_last_write_wins_witness:
  "(\<exists>out. Forward_cpu layer_k2s2 [input2, mask2] [output2] = Some [output2\<lparr>data := out\<rparr>]
      \<and> out ! 0 = 0 \<and> out ! 1 = 3 \<and> out ! 6 = 4)
   \<and> (\<exists>out. Forward_cpu layer_k1s1 [input_row, mask_row] [output_row]
               = Some [output_row\<lparr>data := out\<rparr>]
      \<and> out ! 0 = 4 \<and> out ! 1 = 0)"
proof
  have shape: "0 \<le> num input2" "0 \<le> channels input2" "0 \<le> height input2" "0 \<le> width input2"
    by (simp_all add: input2_def)
  have out_shape: "0 \<le> unpooled_height_m layer_k2s2" "0 \<le> unpooled_width_m layer_k2s2"
    by (simp_all add: layer_k2s2_def)
  have mask_shape: "height mask2 = height input2" "width mask2 = width input2"
    by (simp_all add: input2_def mask2_def)
  have storage: "count input2 \<le> int (length (data input2))"
    "count input2 \<le> int (length (data mask2))"
    by (simp_all add: count_def input2_def mask2_def)
  have in_range: "\<forall>k<nat (count input2). 0 \<le> Dtype_to_int (data mask2 ! k)
      \<and> Dtype_to_int (data mask2 ! k)
          < unpooled_height_m layer_k2s2 * unpooled_width_m layer_k2s2"
    by (simp add: count_def input2_def mask2_def layer_k2s2_def Dtype_to_int_def
        eval_nat_numeral All_less_Suc)
  from Forward_cpu_last_write_wins
    [OF reshape_k2s2 shape out_shape mask_shape storage in_range]
  obtain out where
    run: "Forward_cpu layer_k2s2 [input2, mask2] [output2]
            = Some ([output2][0 := ([output2] ! 0)\<lparr>data := out\<rparr>])"
    and sc: "\<And>s t. s < nat (num input2 * channels input2) \<Longrightarrow>
        t < nat (unpooled_height_m layer_k2s2 * unpooled_width_m layer_k2s2) \<Longrightarrow>
        ((\<forall>i<nat (height input2 * width input2).
             Dtype_to_int (data mask2 ! (s * nat (height input2 * width input2) + i)) \<noteq> int t)
           \<longrightarrow> out ! (s * nat (unpooled_height_m layer_k2s2 * unpooled_width_m layer_k2s2) + t) = 0)
        \<and> (\<forall>i<nat (height input2 * width input2).
              Dtype_to_int (data mask2 ! (s * nat (height input2 * width input2) + i)) = int t
              \<and> (\<forall>j<nat (height input2 * width input2). i < j \<longrightarrow>
                    Dtype_to_int (data mask2 ! (s * nat (height input2 * width input2) + j)) \<noteq> int t)
            \<longrightarrow> out ! (s * nat (unpooled_height_m layer_k2s2 * unpooled_width_m layer_k2s2) + t)
                  = data input2 ! (s * nat (height input2 * width input2) + i))"
    by blast
  have "out ! 0 = 0"
    using sc [of 0 0] by (simp add: input2_def mask2_def layer_k2s2_def Dtype_to_int_def)
  moreover have "out ! 1 = 3"
    using sc [of 0 1] by (simp add: input2_def mask2_def layer_k2s2_def Dtype_to_int_def)
  moreover have "out ! 6 = 4"
    using sc [of 1 2] by (simp add: input2_def mask2_def layer_k2s2_def Dtype_to_int_def)
  moreover have "Forward_cpu layer_k2s2 [input2, mask2] [output2]
      = Some [output2\<lparr>data := out\<rparr>]"
    using run by simp
  ultimately show "\<exists>out. Forward_cpu layer_k2s2 [input2, mask2] [output2]
      = Some [output2\<lparr>data := out\<rparr>] \<and> out ! 0 = 0 \<and> out ! 1 = 3 \<and> out ! 6 = 4"
    by blast
next
  have shape: "0 \<le> num input_row" "0 \<le> channels input_row" "0 \<le> height input_row"
    "0 \<le> width input_row"
    by (simp_all add: input_row_def)
  have out_shape: "0 \<le> unpooled_height_m layer_k1s1" "0 \<le> unpooled_width_m layer_k1s1"
    by (simp_all add: layer_k1s1_def)
  have mask_shape: "height mask_row = height input_row" "width mask_row = width input_row"
    by (simp_all add: input_row_def mask_row_def)
  have storage: "count input_row \<le> int (length (data input_row))"
    "count input_row \<le> int (length (data mask_row))"
    by (simp_all add: count_def input_row_def mask_row_def)
  have in_range: "\<forall>k<nat (count input_row). 0 \<le> Dtype_to_int (data mask_row ! k)
      \<and> Dtype_to_int (data mask_row ! k)
          < unpooled_height_m layer_k1s1 * unpooled_width_m layer_k1s1"
    by (simp add: count_def input_row_def mask_row_def layer_k1s1_def Dtype_to_int_def
        eval_nat_numeral All_less_Suc)
  from Forward_cpu_last_write_wins
    [OF reshape_k1s1 shape out_shape mask_shape storage in_range]
  obtain out where
    run: "Forward_cpu layer_k1s1 [input_row, mask_row] [output_row]
            = Some ([output_row][0 := ([output_row] ! 0)\<lparr>data := out\<rparr>])"
    and sc: "\<And>s t. s < nat (num input_row * channels input_row) \<Longrightarrow>
        t < nat (unpooled_height_m layer_k1s1 * unpooled_width_m layer_k1s1) \<Longrightarrow>
        ((\<forall>i<nat (height input_row * width input_row).
             Dtype_to_int (data mask_row ! (s * nat (height input_row * width input_row) + i))
               \<noteq> int t)
           \<longrightarrow> out ! (s * nat (unpooled_height_m layer_k1s1 * unpooled_width_m layer_k1s1) + t) = 0)
        \<and> (\<forall>i<nat (height input_row * width input_row).
              Dtype_to_int (data mask_row ! (s * nat (height input_row * width input_row) + i))
                = int t
              \<and> (\<forall>j<nat (height input_row * width input_row). i < j \<longrightarrow>
                    Dtype_to_int (data mask_row ! (s * nat (height input_row * width input_row) + j))
                      \<noteq> int t)
            \<longrightarrow> out ! (s * nat (unpooled_height_m layer_k1s1 * unpooled_width_m layer_k1s1) + t)
                  = data input_row ! (s * nat (height input_row * width input_row) + i))"
    by blast
  have "out ! 0 = data input_row ! 1"
    using sc [of 0 0, THEN conjunct2, rule_format, of 1]
    by (simp add: input_row_def mask_row_def layer_k1s1_def Dtype_to_int_def)
  then have "out ! 0 = 4"
    by (simp add: input_row_def)
  moreover have "out ! 1 = 0"
    using sc [of 0 1]
    by (simp add: input_row_def mask_row_def layer_k1s1_def Dtype_to_int_def
        eval_nat_numeral All_less_Suc)
  moreover have "Forward_cpu layer_k1s1 [input_row, mask_row] [output_row]
      = Some [output_row\<lparr>data := out\<rparr>]"
    using run by simp
  ultimately show "\<exists>out. Forward_cpu layer_k1s1 [input_row, mask_row] [output_row]
      = Some [output_row\<lparr>data := out\<rparr>] \<and> out ! 0 = 4 \<and> out ! 1 = 0"
    by blast
qed

subsection \<open>Backward\<close>

text \<open>
  C9. With propagation to the input disabled, the backward pass returns at once: the
  blobs of \<open>bottom\<close>, and so the input gradient buffer, are exactly as they were.
\<close>

theorem Backward_cpu_no_propagation:
  "Backward_cpu l top' (False # pd) bottom = Some bottom"
  by (simp add: Backward_cpu_def vec_at_def)

theorem Backward_cpu_no_propagation_witness:
  "Backward_cpu layer_k2s2 [output2] [False] [input2, mask2] = Some [input2, mask2]
   \<and> diff input2 = [9, 9]"
  using Backward_cpu_no_propagation [where l = layer_k2s2 and top' = "[output2]" and pd = "[]"
      and bottom = "[input2, mask2]"]
  by (simp add: input2_def)

text \<open>
  C1 at a concrete input with two channels. The upstream gradient of the first channel
  is \<open>5, 6, 7, 8\<close> and that of the second \<open>9, 10, 11, 12\<close>; the masks send the first
  channel's pixel to position 1 and the second's to position 2. The claim gives the
  input gradient \<open>6, 11\<close>. The code gathers the first slice twice and never reaches the
  second one, which keeps the zero of the initial fill.
\<close>

theorem Backward_cpu_second_channel_zero:
  "Backward_cpu layer_k2s2 [output2\<lparr>diff := [5, 6, 7, 8, 9, 10, 11, 12]\<rparr>] [True]
     [input2, mask2] = Some [input2\<lparr>diff := [6, 0]\<rparr>, mask2]"
  by (simp add: kernel_defs layer_k2s2_def input2_def mask2_def output2_def eval_nat_numeral)

text \<open>
  C2 at a concrete input with two channels and a well-formed mask. The forward pass
  scatters the input \<open>3, 4\<close>; the backward pass on the forward output gives \<open>3, 0\<close> and
  not the input.
\<close>

theorem Forward_Backward_round_trip_lost:
  "Forward_cpu layer_k2s2 [input2, mask2] [output2]
     = Some [output2\<lparr>data := [0, 3, 0, 0, 0, 0, 4, 0]\<rparr>]
   \<and> Backward_cpu layer_k2s2
       [output2\<lparr>data := [0, 3, 0, 0, 0, 0, 4, 0], diff := [0, 3, 0, 0, 0, 0, 4, 0]\<rparr>] [True]
       [input2, mask2] = Some [input2\<lparr>diff := [3, 0]\<rparr>, mask2]
   \<and> data input2 = [3, 4]"
  by (simp add: kernel_defs layer_k2s2_def input2_def mask2_def output2_def eval_nat_numeral)

subsection \<open>Declared blob counts\<close>

text \<open>
  C6, as the claim states it, fails: \<^verbatim>\<open>CudnnNdUnpoolingLayer\<close> declares exactly one
  input blob, not two.
\<close>

theorem CudnnNd_declares_one_bottom:
  "ExactNumBottomBlobs CudnnNdUnpoolingLayer = 1
   \<and> ExactNumBottomBlobs CudnnNdUnpoolingLayer \<noteq> 2"
  by simp

text \<open>
  C6, amended. Each of the two classes of the cuDNN header declares that it requires
  exactly 1 input blob; \<^verbatim>\<open>CuDNNUnpoolingLayer\<close> declares exactly 2 output blobs and
  \<^verbatim>\<open>CudnnNdUnpoolingLayer\<close> exactly 1.
\<close>

theorem cudnn_declared_blob_counts:
  "ExactNumBottomBlobs v = 1
   \<and> ExactNumTopBlobs v = (case v of CuDNNUnpoolingLayer \<Rightarrow> 2 | CudnnNdUnpoolingLayer \<Rightarrow> 1)
   \<and> (ExactNumTopBlobs v = 1 \<or> ExactNumTopBlobs v = 2)"
  by (cases v) simp_all

theorem cudnn_declared_blob_counts_witness:
  "ExactNumBottomBlobs CuDNNUnpoolingLayer = 1 \<and> ExactNumTopBlobs CuDNNUnpoolingLayer = 2"
  using cudnn_declared_blob_counts [where v = CuDNNUnpoolingLayer]
  by simp

end
